theory Spec2Isabelle
  imports Main "HOL-Library.AList"
begin

section \<open>The ingest driver of vectara-crawler (ingest.py)\<close>

text \<open>
  The driver reads five environment variables, loads an OmegaConf document, overlays the
  environment's identifiers on it, resolves a crawler class by naming convention,
  optionally resets the corpus, and runs the crawl. Everything the driver touches
  outside itself (the environment, the configuration loader, the importable modules,
  the token endpoint, the HTTP client) is a field of a \<open>world\<close> record; what the driver
  does to the outside is recorded, in order, as a list of events.
\<close>

subsection \<open>Python strings\<close>

text \<open>
  Strings are lists of characters. \<open>str.lower\<close>, \<open>str.upper\<close> and \<open>str.capitalize\<close> are
  modelled on the ASCII letters and are exact on ASCII strings; every other character is
  left as it is.
\<close>

definition lower_chr :: "char \<Rightarrow> char" where
  "lower_chr c = (let n = (of_char c :: nat) in if 65 \<le> n \<and> n \<le> 90 then char_of (n + 32) else c)"

definition upper_chr :: "char \<Rightarrow> char" where
  "upper_chr c = (let n = (of_char c :: nat) in if 97 \<le> n \<and> n \<le> 122 then char_of (n - 32) else c)"

definition lower :: "string \<Rightarrow> string" where
  "lower s = map lower_chr s"

text \<open>\<open>s.capitalize()\<close>: the first character upper-cased, the rest lower-cased.\<close>

definition capitalize :: "string \<Rightarrow> string" where
  "capitalize s = (case s of [] \<Rightarrow> [] | c # cs \<Rightarrow> upper_chr c # map lower_chr cs)"

text \<open>
  \<open>s.split(sep)\<close> for a non-empty separator: the pieces between the successive
  non-overlapping occurrences of \<open>sep\<close>, scanning from the left. The second argument
  accumulates the current piece in reverse.
\<close>

function split_aux :: "string \<Rightarrow> string \<Rightarrow> string \<Rightarrow> string list" where
  "split_aux sep acc [] = [rev acc]"
| "split_aux sep acc (c # cs) =
     (if sep \<noteq> [] \<and> take (length sep) (c # cs) = sep
      then rev acc # split_aux sep [] (drop (length sep) (c # cs))
      else split_aux sep (c # acc) cs)"
  by pat_completeness auto
termination
  by (relation "measure (\<lambda>(sep, acc, s). length s)") auto

definition split :: "string \<Rightarrow> string \<Rightarrow> string list" where
  "split s sep = split_aux sep [] s"

subsection \<open>Exceptions\<close>

text \<open>
  The exceptions that can leave a function of the driver. Each carries the name or text
  it is about (\<open>MissingMandatoryValue\<close> is OmegaConf's). \<open>Raised\<close> is any exception of a
  collaborator (the configuration loader, a crawler's constructor or crawl, the OAuth2
  session, the HTTP client, OmegaConf's interpolation grammar and resolution).
\<close>

datatype error =
    ModuleNotFoundError string
  | AttributeError string
  | TypeError string
  | ValueError string
  | KeyError string
  | IndexError
  | MissingMandatoryValue string
  | Raised string

subsection \<open>\<open>int(s)\<close> on a string\<close>

text \<open>
  A character stands for a code point below 256. On a string of such code points
  \<open>int\<close> works as follows. Whitespace is stripped from both ends: the ASCII characters
  9 to 13 and 32, and the two further spaces of this range, U+0085 and U+00A0 (the
  characters 28 to 31 are not stripped). One optional sign may follow, and then decimal
  digits, where single underscores may stand between two digits. A number of more than
  640 digits is refused when it has more digits than the interpreter's limit
  (\<open>sys.get_int_max_str_digits()\<close>, 4300 unless changed; 0 stands for no limit). Every
  failure is a \<open>ValueError\<close>, which here carries the string.
\<close>

definition is_space :: "char \<Rightarrow> bool" where
  "is_space c = (let n = (of_char c :: nat) in (9 \<le> n \<and> n \<le> 13) \<or> n = 32 \<or> n = 133 \<or> n = 160)"

definition is_digit :: "char \<Rightarrow> bool" where
  "is_digit c = (let n = (of_char c :: nat) in 48 \<le> n \<and> n \<le> 57)"

definition digit_val :: "char \<Rightarrow> nat" where
  "digit_val c = of_char c - 48"

definition strip :: "string \<Rightarrow> string" where
  "strip s = rev (dropWhile is_space (rev (dropWhile is_space s)))"

fun after_digit :: "string \<Rightarrow> nat \<Rightarrow> nat option" where
  "after_digit [] acc = Some acc"
| "after_digit [c] acc = (if is_digit c then Some (10 * acc + digit_val c) else None)"
| "after_digit (c # d # ds) acc =
     (if is_digit c then after_digit (d # ds) (10 * acc + digit_val c)
      else if c = CHR ''_'' \<and> is_digit d then after_digit ds (10 * acc + digit_val d)
      else None)"

definition parse_nat :: "string \<Rightarrow> nat option" where
  "parse_nat s = (case s of [] \<Rightarrow> None
     | c # cs \<Rightarrow> if is_digit c then after_digit cs (digit_val c) else None)"

definition too_many_digits :: "nat \<Rightarrow> string \<Rightarrow> bool" where
  "too_many_digits max_str_digits body =
     (let digits = length (filter is_digit body)
      in 640 < digits \<and> 0 < max_str_digits \<and> max_str_digits < digits)"

definition py_int :: "nat \<Rightarrow> string \<Rightarrow> error + int" where
  "py_int max_str_digits s =
     (case strip s of
        [] \<Rightarrow> Inl (ValueError s)
      | c # cs \<Rightarrow>
          (let body = (if c = CHR ''-'' \<or> c = CHR ''+'' then cs else c # cs)
           in if too_many_digits max_str_digits body then Inl (ValueError s)
              else case parse_nat body of
                     None \<Rightarrow> Inl (ValueError s)
                   | Some n \<Rightarrow> Inr (if c = CHR ''-'' then - int n else int n)))"

text \<open>The decimal numeral of a natural number, as \<open>str\<close> writes it.\<close>

function decimal :: "nat \<Rightarrow> string" where
  "decimal n = (if n < 10 then [char_of (48 + n)] else decimal (n div 10) @ [char_of (48 + n mod 10)])"
  by pat_completeness auto
termination
  by (relation "measure id") auto

declare decimal.simps [simp del]

subsection \<open>Configuration values (OmegaConf)\<close>

text \<open>
  A configuration node is a scalar or a mapping from keys to nodes, kept as an
  association list in which the first binding of a key is the one in force. YAML
  sequences and floats are not represented.
\<close>

datatype cfgval =
    CNone
  | CStr string
  | CInt int
  | CBool bool
  | CDict "(string \<times> cfgval) list"

subsection \<open>Formatted strings, events and the state of a run\<close>

text \<open>
  An f-string is kept as its fragments: the literal text and the values formatted into
  it. This leaves the rendering of a value (\<open>str\<close>) symbolic.
\<close>

datatype frag = Lit string | Fmt cfgval

type_synonym fstring = "frag list"

datatype level = INFO | ERROR

datatype event =
    Log level fstring
  | LoadConfig string
  | ImportModule string
  | Construct string "cfgval list"
  | TokenFetch fstring
  | HttpPost fstring
  | Sleep nat
  | Crawl string

record state =
  sys_path :: "string list"
  trace :: "event list"

subsection \<open>Classes, modules and the world outside the driver\<close>

text \<open>
  A class is known by its name, the names of the classes it is a subclass of (itself
  among them), and what its constructor and its \<open>crawl\<close> method do when called:
  \<open>None\<close> when they return, \<open>Some e\<close> when they raise \<open>e\<close>.
\<close>

record pyclass =
  cls_name :: string
  cls_mro :: "string list"
  cls_init :: "cfgval list \<Rightarrow> error option"
  cls_crawl :: "cfgval list \<Rightarrow> error option"

datatype pyobj = ClassObj pyclass | OtherObj

datatype crawler = Instance pyclass "cfgval list"

text \<open>
  The world: the environment, the configuration loader, \<open>os.path.abspath\<close>, the module
  search path at the start, the importable modules by their full dotted name, the
  interpreter's limit on the digits of an integer, the OAuth2 session's token exchange,
  the HTTP client, and OmegaConf's treatment of interpolations: the error, if any, with
  which it refuses an interpolation string that is assigned, the value an interpolation
  string resolves to when it is read under a key of a configuration, and the
  configuration after \<open>cfg.group.key = v\<close> when the group is stored as an interpolation.
\<close>

record world =
  environ :: "string \<rightharpoonup> string"
  load_config :: "string \<Rightarrow> error + (string \<times> cfgval) list"
  abspath :: "string \<Rightarrow> string"
  initial_path :: "string list"
  modules :: "string \<rightharpoonup> (string \<rightharpoonup> pyobj)"
  int_max_str_digits :: nat
  fetch_token :: "fstring \<Rightarrow> cfgval \<Rightarrow> cfgval \<Rightarrow> error + (string \<times> cfgval) list"
  http_post :: "fstring \<Rightarrow> (string \<times> fstring) list \<Rightarrow> (string \<times> cfgval) list \<Rightarrow> error + (int \<times> string)"
  check_interpolation :: "string \<Rightarrow> error option"
  interpolate :: "cfgval \<Rightarrow> string \<Rightarrow> string \<Rightarrow> error + cfgval"
  assign_interpolated :: "cfgval \<Rightarrow> string \<Rightarrow> string \<Rightarrow> cfgval \<Rightarrow> error + cfgval"

subsection \<open>Reading and assigning configuration values\<close>

text \<open>\<open>sub in s\<close> on strings.\<close>

fun contains :: "string \<Rightarrow> string \<Rightarrow> bool" where
  "contains sub [] = (sub = [])"
| "contains sub (c # cs) = (take (length sub) (c # cs) = sub \<or> contains sub cs)"

text \<open>
  What an access yields for a stored node. OmegaConf takes the string \<open>???\<close> for a
  missing mandatory value and raises; it takes every string that contains \<open>${\<close> for an
  interpolation and resolves it against the whole configuration, which is left to the
  world; every other value is returned as it is stored. The key is the full dotted key of
  the access.
\<close>

definition cfg_value :: "world \<Rightarrow> cfgval \<Rightarrow> string \<Rightarrow> cfgval \<Rightarrow> error + cfgval" where
  "cfg_value w root key v =
     (case v of
        CStr s \<Rightarrow>
          if s = ''???'' then Inl (MissingMandatoryValue key)
          else if contains ''${'' s then interpolate w root key s
          else Inr v
      | _ \<Rightarrow> Inr v)"

text \<open>
  \<open>node.key\<close>, for a node reached under the dotted prefix \<open>pre\<close> of the configuration
  \<open>root\<close>: a missing key, and any attribute of a non-mapping, raise.
\<close>

fun cfg_getattr :: "world \<Rightarrow> cfgval \<Rightarrow> string \<Rightarrow> cfgval \<Rightarrow> string \<Rightarrow> error + cfgval" where
  "cfg_getattr w root pre (CDict kvs) k =
     (case map_of kvs k of
        None \<Rightarrow> Inl (AttributeError k)
      | Some v \<Rightarrow> cfg_value w root (pre @ k) v)"
| "cfg_getattr w root pre _ k = Inl (AttributeError k)"

text \<open>\<open>node.key = v\<close> on a mapping, returning the node after the assignment.\<close>

fun cfg_setattr :: "cfgval \<Rightarrow> string \<Rightarrow> cfgval \<Rightarrow> error + cfgval" where
  "cfg_setattr (CDict kvs) k v = Inr (CDict (AList.update k v kvs))"
| "cfg_setattr _ k v = Inl (AttributeError k)"

text \<open>
  \<open>node.get(key, default)\<close>: the default stands in for a missing key and for a missing
  mandatory value.
\<close>

fun cfg_get :: "world \<Rightarrow> cfgval \<Rightarrow> string \<Rightarrow> cfgval \<Rightarrow> string \<Rightarrow> cfgval \<Rightarrow> error + cfgval" where
  "cfg_get w root pre (CDict kvs) k d =
     (case map_of kvs k of
        None \<Rightarrow> Inr d
      | Some v \<Rightarrow> if v = CStr ''???'' then Inr d else cfg_value w root (pre @ k) v)"
| "cfg_get w root pre _ k d = Inl (AttributeError ''get'')"

text \<open>
  What OmegaConf checks of a value that is assigned: a string that contains \<open>${\<close> (and is
  not \<open>???\<close>) must be a well-formed interpolation, which is left to the world; every
  other value of the kinds modelled is accepted.
\<close>

definition cfg_validate :: "world \<Rightarrow> cfgval \<Rightarrow> error option" where
  "cfg_validate w v =
     (case v of
        CStr s \<Rightarrow> if s \<noteq> ''???'' \<and> contains ''${'' s then check_interpolation w s else None
      | _ \<Rightarrow> None)"

text \<open>
  \<open>cfg.group.key = v\<close>, returning the configuration after the assignment. A group stored
  as a mapping is assigned to in place, once the value has passed the check. A group
  stored as an interpolation is resolved by OmegaConf and the assignment goes to the node
  it resolves to; what the configuration is afterwards is left to the world. Every other
  stored value has no attribute to assign to.
\<close>

definition cfg_assign :: "world \<Rightarrow> cfgval \<Rightarrow> string \<Rightarrow> string \<Rightarrow> cfgval \<Rightarrow> error + cfgval" where
  "cfg_assign w cfg g k v =
     (case cfg of
        CDict kvs \<Rightarrow>
          (case map_of kvs g of
             None \<Rightarrow> Inl (AttributeError g)
           | Some (CDict al) \<Rightarrow>
               (case cfg_validate w v of
                  Some e \<Rightarrow> Inl e
                | None \<Rightarrow>
                    (case cfg_setattr (CDict al) k v of
                       Inl e \<Rightarrow> Inl e
                     | Inr grp \<Rightarrow> cfg_setattr cfg g grp))
           | Some (CStr s) \<Rightarrow>
               if s = ''???'' then Inl (MissingMandatoryValue g)
               else if contains ''${'' s then assign_interpolated w cfg g k v
               else Inl (AttributeError k)
           | Some _ \<Rightarrow> Inl (AttributeError k))
      | _ \<Rightarrow> Inl (AttributeError g))"

text \<open>\<open>cfg.group.key\<close>.\<close>

definition cfg_select :: "world \<Rightarrow> cfgval \<Rightarrow> string \<Rightarrow> string \<Rightarrow> error + cfgval" where
  "cfg_select w cfg g k =
     (case cfg_getattr w cfg [] cfg g of
        Inl e \<Rightarrow> Inl e
      | Inr grp \<Rightarrow> cfg_getattr w cfg (g @ ''.'') grp k)"

text \<open>\<open>v[:5]\<close> and \<open>v.capitalize()\<close> on a value read from the configuration.\<close>

fun py_slice5 :: "cfgval \<Rightarrow> error + cfgval" where
  "py_slice5 (CStr s) = Inr (CStr (take 5 s))"
| "py_slice5 _ = Inl (TypeError ''object is not subscriptable'')"

fun py_capitalize :: "cfgval \<Rightarrow> error + string" where
  "py_capitalize (CStr s) = Inr (capitalize s)"
| "py_capitalize _ = Inl (AttributeError ''capitalize'')"

subsection \<open>Sequencing with exceptions\<close>

text \<open>
  A computation takes the state and returns the state afterwards with either the
  exception that left it or its value. What was done before an exception stays done.
\<close>

type_synonym 'a py = "state \<Rightarrow> (error + 'a) \<times> state"

definition ret :: "'a \<Rightarrow> 'a py" where
  "ret x = (\<lambda>s. (Inr x, s))"

definition raise :: "error \<Rightarrow> 'a py" where
  "raise e = (\<lambda>s. (Inl e, s))"

definition bind :: "'a py \<Rightarrow> ('a \<Rightarrow> 'b py) \<Rightarrow> 'b py" where
  "bind m f = (\<lambda>s. case m s of (Inl e, s') \<Rightarrow> (Inl e, s') | (Inr x, s') \<Rightarrow> f x s')"

definition lift :: "error + 'a \<Rightarrow> 'a py" where
  "lift r = (case r of Inl e \<Rightarrow> raise e | Inr x \<Rightarrow> ret x)"

definition emit :: "event \<Rightarrow> unit py" where
  "emit ev = (\<lambda>s. (Inr (), s\<lparr>trace := trace s @ [ev]\<rparr>))"

definition logging_info :: "fstring \<Rightarrow> unit py" where
  "logging_info msg = emit (Log INFO msg)"

definition logging_error :: "fstring \<Rightarrow> unit py" where
  "logging_error msg = emit (Log ERROR msg)"

subsection \<open>instantiate_crawler\<close>

text \<open>\<open>importlib.import_module\<close>: the module of that name, if the world has one.\<close>

definition import_module :: "world \<Rightarrow> string \<Rightarrow> (string \<rightharpoonup> pyobj) py" where
  "import_module w name =
     bind (emit (ImportModule name)) (\<lambda>_.
       case modules w name of
         None \<Rightarrow> raise (ModuleNotFoundError name)
       | Some m \<Rightarrow> ret m)"

text \<open>Calling a class: the constructor runs on the arguments.\<close>

definition construct :: "pyclass \<Rightarrow> cfgval list \<Rightarrow> crawler py" where
  "construct c args =
     bind (emit (Construct (cls_name c) args)) (\<lambda>_.
       case cls_init c args of
         Some e \<Rightarrow> raise e
       | None \<Rightarrow> ret (Instance c args))"

text \<open>
  The base class is given by its name. Line 15 prepends to \<open>sys.path\<close>; line 17 takes the
  first piece of the split; line 21 binds \<open>class_\<close> (here \<open>cls\<close>); line 24 is \<open>issubclass\<close>, which itself raises when its first
  argument is not a class.
\<close>

definition instantiate_crawler ::
    "world \<Rightarrow> string \<Rightarrow> string \<Rightarrow> string \<Rightarrow> cfgval list \<Rightarrow> crawler py" where
  "instantiate_crawler w base_class folder_name class_name args =
     bind (\<lambda>s. (Inr (), s\<lparr>sys_path := abspath w folder_name # sys_path s\<rparr>)) (\<lambda>_.
     bind (case split class_name ''Crawler'' of
             [] \<Rightarrow> raise IndexError
           | p # _ \<Rightarrow> ret p) (\<lambda>crawler_name.
     bind (import_module w (folder_name @ ''.'' @ lower crawler_name @ ''_crawler'')) (\<lambda>module.
     bind (case module class_name of
             None \<Rightarrow> raise (AttributeError class_name)
           | Some obj \<Rightarrow> ret obj) (\<lambda>cls.
       case cls of
         OtherObj \<Rightarrow> raise (TypeError ''issubclass() arg 1 must be a class'')
       | ClassObj c \<Rightarrow>
           if base_class \<notin> set (cls_mro c)
           then raise (TypeError (class_name @ '' is not a subclass of '' @ base_class))
           else construct c args))))"

subsection \<open>get_jwt_token and reset_corpus\<close>

definition get_jwt_token :: "world \<Rightarrow> cfgval \<Rightarrow> cfgval \<Rightarrow> cfgval \<Rightarrow> cfgval \<Rightarrow> cfgval py" where
  "get_jwt_token w auth_url auth_id auth_secret customer_id =
     (let token_endpoint = [Fmt auth_url, Lit ''/oauth2/token''] in
      bind (emit (TokenFetch token_endpoint)) (\<lambda>_.
      bind (lift (fetch_token w token_endpoint auth_id auth_secret)) (\<lambda>token.
        case map_of token ''access_token'' of
          None \<Rightarrow> raise (KeyError ''access_token'')
        | Some t \<Rightarrow> ret t)))"

definition reset_corpus ::
    "world \<Rightarrow> cfgval \<Rightarrow> cfgval \<Rightarrow> cfgval \<Rightarrow> cfgval \<Rightarrow> cfgval \<Rightarrow> cfgval \<Rightarrow> unit py" where
  "reset_corpus w endpoint customer_id corpus_id auth_url auth_id auth_secret =
     (let url = [Lit ''https://'', Fmt endpoint, Lit ''/v1/reset-corpus''];
          payload = [(''customerId'', customer_id), (''corpusId'', corpus_id)] in
      bind (get_jwt_token w auth_url auth_id auth_secret customer_id) (\<lambda>token.
        let headers = [(''Content-Type'', [Lit ''application/json'']),
                       (''Accept'', [Lit ''application/json'']),
                       (''customer-id'', [Fmt customer_id]),
                       (''Authorization'', [Lit ''Bearer '', Fmt token])] in
        bind (emit (HttpPost url)) (\<lambda>_.
        bind (lift (http_post w url headers payload)) (\<lambda>(status_code, text).
          if status_code = 200
          then logging_info [Lit ''Reset corpus '', Fmt corpus_id]
          else logging_error [Lit ''Error resetting corpus: '', Fmt (CInt status_code),
                              Lit '' '', Fmt (CStr text)]))))"

subsection \<open>main\<close>

text \<open>\<open>crawler.crawl()\<close>.\<close>

fun crawl :: "crawler \<Rightarrow> unit py" where
  "crawl (Instance c args) =
     bind (emit (Crawl (cls_name c))) (\<lambda>_.
       case cls_crawl c args of
         Some e \<Rightarrow> raise e
       | None \<Rightarrow> ret ())"

text \<open>\<open>time.sleep(n)\<close>.\<close>

definition sleep :: "nat \<Rightarrow> unit py" where
  "sleep n = emit (Sleep n)"

text \<open>\<open>DictConfig(OmegaConf.load(config_name))\<close>.\<close>

definition OmegaConf_load :: "world \<Rightarrow> string \<Rightarrow> cfgval py" where
  "OmegaConf_load w config_name =
     bind (emit (LoadConfig config_name)) (\<lambda>_.
     bind (lift (load_config w config_name)) (\<lambda>kvs. ret (CDict kvs)))"

text \<open>
  \<open>os.environ.get(name)\<close> is \<open>environ w name\<close>. The test \<open>not v\<close> holds of \<open>None\<close> and of
  the empty string; \<open>truthy\<close> gives the value when the test fails.
\<close>

definition truthy :: "string option \<Rightarrow> string option" where
  "truthy v = (case v of None \<Rightarrow> None | Some s \<Rightarrow> if s = [] then None else Some s)"

definition fmt_env :: "string option \<Rightarrow> frag" where
  "fmt_env v = (case v of None \<Rightarrow> Fmt CNone | Some s \<Rightarrow> Fmt (CStr s))"

text \<open>
  Lines 112 to 114, the overlay of the environment's values on the configuration. In
  line 114 the right-hand side \<open>int(vectara_corpus_id)\<close> is evaluated before the
  assignment. None of the three lines has an effect outside the configuration.
\<close>

definition merge_env :: "world \<Rightarrow> cfgval \<Rightarrow> string \<Rightarrow> string \<Rightarrow> string \<Rightarrow> error + cfgval" where
  "merge_env w cfg0 vectara_api_key vectara_customer_id vectara_corpus_id =
     (case cfg_assign w cfg0 ''vectara'' ''api_key'' (CStr vectara_api_key) of
        Inl e \<Rightarrow> Inl e
      | Inr cfg1 \<Rightarrow>
     (case cfg_assign w cfg1 ''vectara'' ''customer_id'' (CStr vectara_customer_id) of
        Inl e \<Rightarrow> Inl e
      | Inr cfg2 \<Rightarrow>
     (case py_int (int_max_str_digits w) vectara_corpus_id of
        Inl e \<Rightarrow> Inl e
      | Inr n \<Rightarrow> cfg_assign w cfg2 ''vectara'' ''corpus_id'' (CInt n))))"

text \<open>
  Lines 112 to 145, with the local \<open>reset_corpus_flag\<close> of line 138 taken as a parameter.
\<close>

definition ingest :: "bool \<Rightarrow> world \<Rightarrow> cfgval \<Rightarrow> string \<Rightarrow> string \<Rightarrow> string \<Rightarrow> unit py" where
  "ingest reset_corpus_flag w cfg0 vectara_api_key vectara_customer_id vectara_corpus_id =
     bind (lift (merge_env w cfg0 vectara_api_key vectara_customer_id vectara_corpus_id)) (\<lambda>cfg.
     bind (logging_info [Lit ''Updated configuration with environment variables'']) (\<lambda>_.
     bind (lift (cfg_getattr w cfg [] cfg ''vectara'')) (\<lambda>vectara.
     bind (lift (cfg_get w cfg ''vectara.'' vectara ''endpoint'' (CStr ''api.vectara.io''))) (\<lambda>endpoint.
     bind (lift (cfg_select w cfg ''vectara'' ''customer_id'')) (\<lambda>customer_id.
     bind (lift (cfg_select w cfg ''vectara'' ''corpus_id'')) (\<lambda>corpus_id.
     bind (lift (cfg_select w cfg ''vectara'' ''api_key'')) (\<lambda>api_key.
     bind (lift (cfg_select w cfg ''crawling'' ''crawler_type'')) (\<lambda>crawler_type.
     bind (logging_info [Lit ''Endpoint: '', Fmt endpoint]) (\<lambda>_.
     bind (logging_info [Lit ''Customer ID: '', Fmt customer_id]) (\<lambda>_.
     bind (logging_info [Lit ''Corpus ID: '', Fmt corpus_id]) (\<lambda>_.
     bind (lift (py_slice5 api_key)) (\<lambda>key5.
     bind (logging_info [Lit ''API Key: '', Fmt key5, Lit ''...'']) (\<lambda>_.
     bind (logging_info [Lit ''Crawler Type: '', Fmt crawler_type]) (\<lambda>_.
     bind (lift (py_capitalize crawler_type)) (\<lambda>cap.
     bind (instantiate_crawler w ''Crawler'' ''crawlers'' (cap @ ''Crawler'')
             [cfg, endpoint, customer_id, corpus_id, api_key]) (\<lambda>crawler.
     bind (lift (py_capitalize crawler_type)) (\<lambda>cap'.
     bind (logging_info [Lit ''Instantiated '', Fmt (CStr cap'), Lit ''Crawler'']) (\<lambda>_.
     bind (if reset_corpus_flag
           then
             bind (logging_info [Lit ''Resetting corpus'']) (\<lambda>_.
             bind (lift (cfg_select w cfg ''vectara'' ''auth_url'')) (\<lambda>auth_url.
             bind (lift (cfg_select w cfg ''vectara'' ''auth_id'')) (\<lambda>auth_id.
             bind (lift (cfg_select w cfg ''vectara'' ''auth_secret'')) (\<lambda>auth_secret.
             bind (reset_corpus w endpoint customer_id corpus_id auth_url auth_id auth_secret) (\<lambda>_.
               sleep 5)))))
           else ret ()) (\<lambda>_.
     bind (logging_info [Lit ''Starting crawl of type '', Fmt crawler_type, Lit ''...'']) (\<lambda>_.
     bind (crawl crawler) (\<lambda>_.
       logging_info [Lit ''Finished crawl of type '', Fmt crawler_type, Lit ''...''])))))))))))))))))))))"

text \<open>
  Lines 74 to 110, then \<open>ingest\<close>. Each early \<open>return\<close> ends the computation with the
  value of the error log call.
\<close>

definition main_with :: "bool \<Rightarrow> world \<Rightarrow> unit py" where
  "main_with reset_corpus_flag w =
     bind (logging_info [Lit ''Starting ingest.py'']) (\<lambda>_.
     let config_name = environ w ''CONFIG_FILE'';
         profile_name = environ w ''PROFILE'' in
     bind (logging_info [Lit ''Config file: '', fmt_env config_name]) (\<lambda>_.
     bind (logging_info [Lit ''Profile name: '', fmt_env profile_name]) (\<lambda>_.
       (case truthy config_name of
         None \<Rightarrow> logging_error [Lit ''CONFIG_FILE environment variable not set'']
       | Some cn \<Rightarrow>
       (case truthy profile_name of
         None \<Rightarrow> logging_error [Lit ''PROFILE environment variable not set'']
       | Some pn \<Rightarrow>
       bind (OmegaConf_load w cn) (\<lambda>cfg.
       bind (logging_info [Lit ''Loaded configuration'']) (\<lambda>_.
       let vectara_api_key = environ w ''VECTARA_API_KEY'';
           vectara_customer_id = environ w ''VECTARA_CUSTOMER_ID'';
           vectara_corpus_id = environ w ''VECTARA_CORPUS_ID'' in
       (case truthy vectara_api_key of
         None \<Rightarrow> logging_error [Lit ''VECTARA_API_KEY environment variable not set'']
       | Some key \<Rightarrow>
       (case truthy vectara_customer_id of
         None \<Rightarrow> logging_error [Lit ''VECTARA_CUSTOMER_ID environment variable not set'']
       | Some cust \<Rightarrow>
       (case truthy vectara_corpus_id of
         None \<Rightarrow> logging_error [Lit ''VECTARA_CORPUS_ID environment variable not set'']
       | Some corp \<Rightarrow>
       ingest reset_corpus_flag w cfg key cust corp))))))))))"

text \<open>\<open>main\<close> as the source has it: line 138 sets the flag to \<open>False\<close>.\<close>

definition main :: "world \<Rightarrow> unit py" where
  "main w = main_with False w"

text \<open>A run of the program: \<open>main\<close> from the initial module search path and no events.\<close>

definition initial_state :: "world \<Rightarrow> state" where
  "initial_state w = \<lparr>sys_path = initial_path w, trace = []\<rparr>"

definition run_with :: "bool \<Rightarrow> world \<Rightarrow> (error + unit) \<times> state" where
  "run_with reset_corpus_flag w = main_with reset_corpus_flag w (initial_state w)"

definition run :: "world \<Rightarrow> (error + unit) \<times> state" where
  "run w = main w (initial_state w)"

subsection \<open>Observations on a run\<close>

text \<open>
  The events that reach outside the process or into a plugin: everything but log lines
  and the reading of the configuration file.
\<close>

fun outbound :: "event \<Rightarrow> bool" where
  "outbound (Log _ _) = False"
| "outbound (LoadConfig _) = False"
| "outbound _ = True"

text \<open>The events of the reset path, and those together with the crawl call.\<close>

fun reset_event :: "event \<Rightarrow> bool" where
  "reset_event (TokenFetch _) = True"
| "reset_event (HttpPost _) = True"
| "reset_event (Sleep _) = True"
| "reset_event _ = False"

fun reset_or_crawl :: "event \<Rightarrow> bool" where
  "reset_or_crawl (TokenFetch _) = True"
| "reset_or_crawl (HttpPost _) = True"
| "reset_or_crawl (Sleep _) = True"
| "reset_or_crawl (Crawl _) = True"
| "reset_or_crawl _ = False"

text \<open>The constructor calls of a trace, in order: class name and arguments.\<close>

fun constructor_calls :: "event list \<Rightarrow> (string \<times> cfgval list) list" where
  "constructor_calls [] = []"
| "constructor_calls (Construct n a # es) = (n, a) # constructor_calls es"
| "constructor_calls (_ # es) = constructor_calls es"

text \<open>
  Two calls of the resolver with the same arguments, the second from the state the first
  one left, whether the first returned or raised.
\<close>

definition instantiate_twice ::
    "world \<Rightarrow> string \<Rightarrow> string \<Rightarrow> string \<Rightarrow> cfgval list \<Rightarrow> crawler py" where
  "instantiate_twice w base_class folder_name class_name args s =
     instantiate_crawler w base_class folder_name class_name args
       (snd (instantiate_crawler w base_class folder_name class_name args s))"

subsection \<open>Example worlds\<close>

text \<open>A class whose constructor and \<open>crawl\<close> return.\<close>

definition plain_class :: "string \<Rightarrow> string list \<Rightarrow> pyclass" where
  "plain_class name mro =
     \<lparr>cls_name = name, cls_mro = mro, cls_init = (\<lambda>_. None), cls_crawl = (\<lambda>_. None)\<rparr>"

text \<open>
  The end-to-end scenario of the specification: the five variables set, a configuration
  that declares the crawler type \<open>website\<close> and no endpoint, and a module
  \<open>crawlers.website_crawler\<close> with a class \<open>WebsiteCrawler\<close> derived from \<open>Crawler\<close>.
\<close>

definition scenario_cfg :: "(string \<times> cfgval) list" where
  "scenario_cfg =
     [(''vectara'', CDict []), (''crawling'', CDict [(''crawler_type'', CStr ''website'')])]"

definition scenario_world :: world where
  "scenario_world =
     \<lparr>environ = [''CONFIG_FILE'' \<mapsto> ''cfg.yaml'', ''PROFILE'' \<mapsto> ''p'',
                 ''VECTARA_API_KEY'' \<mapsto> ''k'', ''VECTARA_CUSTOMER_ID'' \<mapsto> ''1000'',
                 ''VECTARA_CORPUS_ID'' \<mapsto> ''7''],
      load_config = (\<lambda>f. if f = ''cfg.yaml'' then Inr scenario_cfg
                          else Inl (Raised ''FileNotFoundError'')),
      abspath = (\<lambda>p. ''/app/'' @ p),
      initial_path = [''/app''],
      modules = [''crawlers.website_crawler'' \<mapsto>
                   [''WebsiteCrawler'' \<mapsto>
                      ClassObj (plain_class ''WebsiteCrawler''
                                  [''WebsiteCrawler'', ''Crawler'', ''object''])]],
      int_max_str_digits = 4300,
      fetch_token = (\<lambda>_ _ _. Inr [(''access_token'', CStr ''t'')]),
      http_post = (\<lambda>_ _ _. Inr (200, ''OK'')),
      check_interpolation = (\<lambda>_. Some (Raised ''GrammarParseError'')),
      interpolate = (\<lambda>_ _ _. Inl (Raised ''InterpolationResolutionError'')),
      assign_interpolated = (\<lambda>_ _ _ _. Inl (Raised ''InterpolationResolutionError''))\<rparr>"

definition scenario_args :: "cfgval list" where
  "scenario_args =
     [CDict [(''vectara'', CDict [(''api_key'', CStr ''k''), (''customer_id'', CStr ''1000''),
                                 (''corpus_id'', CInt 7)]),
             (''crawling'', CDict [(''crawler_type'', CStr ''website'')])],
      CStr ''api.vectara.io'', CStr ''1000'', CInt 7, CStr ''k'']"

definition scenario_trace :: "event list" where
  "scenario_trace =
     [Log INFO [Lit ''Starting ingest.py''],
      Log INFO [Lit ''Config file: '', Fmt (CStr ''cfg.yaml'')],
      Log INFO [Lit ''Profile name: '', Fmt (CStr ''p'')],
      LoadConfig ''cfg.yaml'',
      Log INFO [Lit ''Loaded configuration''],
      Log INFO [Lit ''Updated configuration with environment variables''],
      Log INFO [Lit ''Endpoint: '', Fmt (CStr ''api.vectara.io'')],
      Log INFO [Lit ''Customer ID: '', Fmt (CStr ''1000'')],
      Log INFO [Lit ''Corpus ID: '', Fmt (CInt 7)],
      Log INFO [Lit ''API Key: '', Fmt (CStr ''k''), Lit ''...''],
      Log INFO [Lit ''Crawler Type: '', Fmt (CStr ''website'')],
      ImportModule ''crawlers.website_crawler'',
      Construct ''WebsiteCrawler'' scenario_args,
      Log INFO [Lit ''Instantiated '', Fmt (CStr ''Website''), Lit ''Crawler''],
      Log INFO [Lit ''Starting crawl of type '', Fmt (CStr ''website''), Lit ''...''],
      Crawl ''WebsiteCrawler'',
      Log INFO [Lit ''Finished crawl of type '', Fmt (CStr ''website''), Lit ''...'']]"

text \<open>The scenario with the API key missing from the environment.\<close>

definition no_key_world :: world where
  "no_key_world = scenario_world
     \<lparr>environ := [''CONFIG_FILE'' \<mapsto> ''cfg.yaml'', ''PROFILE'' \<mapsto> ''p'',
                  ''VECTARA_CUSTOMER_ID'' \<mapsto> ''1000'', ''VECTARA_CORPUS_ID'' \<mapsto> ''7'']\<rparr>"

text \<open>
  A configuration file that cannot be read, with the three \<open>VECTARA\<close> variables absent
  as well.
\<close>

definition unreadable_world :: world where
  "unreadable_world = scenario_world
     \<lparr>environ := [''CONFIG_FILE'' \<mapsto> ''missing.yaml'', ''PROFILE'' \<mapsto> ''p''],
      load_config := (\<lambda>_. Inl (Raised ''FileNotFoundError''))\<rparr>"


text \<open>The scenario with OmegaConf's missing-value marker as the API key.\<close>

definition marker_world :: world where
  "marker_world = scenario_world
     \<lparr>environ := [''CONFIG_FILE'' \<mapsto> ''cfg.yaml'', ''PROFILE'' \<mapsto> ''p'',
                  ''VECTARA_API_KEY'' \<mapsto> ''???'', ''VECTARA_CUSTOMER_ID'' \<mapsto> ''1000'',
                  ''VECTARA_CORPUS_ID'' \<mapsto> ''7'']\<rparr>"

definition marker_merged :: cfgval where
  "marker_merged =
     CDict [(''vectara'', CDict [(''api_key'', CStr ''???''), (''customer_id'', CStr ''1000''),
                                (''corpus_id'', CInt 7)]),
            (''crawling'', CDict [(''crawler_type'', CStr ''website'')])]"

definition conflicting_merged_482 :: cfgval where
  "conflicting_merged_482 =
     CDict [(''vectara'', CDict [(''api_key'', CStr ''k''), (''customer_id'', CStr ''1000''),
                                (''corpus_id'', CInt 482)])]"

text \<open>A configuration document that carries its own values for the three identifiers.\<close>

definition conflicting_cfg :: "(string \<times> cfgval) list" where
  "conflicting_cfg =
     [(''vectara'', CDict [(''api_key'', CStr ''from-file''), (''customer_id'', CInt 5),
                          (''corpus_id'', CStr ''99'')])]"

definition conflicting_merged :: cfgval where
  "conflicting_merged =
     CDict [(''vectara'', CDict [(''api_key'', CStr ''k''), (''customer_id'', CStr ''1000''),
                                (''corpus_id'', CInt 7)])]"

text \<open>The scenario with a \<open>WebsiteCrawler\<close> that is not derived from \<open>Crawler\<close>.\<close>

definition stray_world :: world where
  "stray_world = scenario_world
     \<lparr>modules := [''crawlers.website_crawler'' \<mapsto>
         [''WebsiteCrawler'' \<mapsto>
            ClassObj (plain_class ''WebsiteCrawler'' [''WebsiteCrawler'', ''object''])]]\<rparr>"

text \<open>The scenario with a server that answers the reset call with status 500.\<close>

definition failing_reset_world :: world where
  "failing_reset_world =
     scenario_world\<lparr>http_post := (\<lambda>_ _ _. Inr (500, ''Internal Server Error''))\<rparr>"

text \<open>The scenario with the settings of the reset path in the configuration.\<close>

definition reset_world :: world where
  "reset_world = scenario_world
     \<lparr>load_config := (\<lambda>f. if f = ''cfg.yaml''
         then Inr [(''vectara'', CDict [(''auth_url'', CStr ''https://auth.example''),
                                       (''auth_id'', CStr ''id''),
                                       (''auth_secret'', CStr ''secret'')]),
                   (''crawling'', CDict [(''crawler_type'', CStr ''website'')])]
         else Inl (Raised ''FileNotFoundError''))\<rparr>"

text \<open>
  A crawler type named \<open>crawler\<close>, implemented by the convention: module
  \<open>crawlers.crawler_crawler\<close> with the class \<open>CrawlerCrawler\<close>.
\<close>

definition crawler_type_world :: world where
  "crawler_type_world = scenario_world
     \<lparr>load_config := (\<lambda>f. if f = ''cfg.yaml''
         then Inr [(''vectara'', CDict []),
                   (''crawling'', CDict [(''crawler_type'', CStr ''crawler'')])]
         else Inl (Raised ''FileNotFoundError'')),
      modules := [''crawlers.crawler_crawler'' \<mapsto>
         [''CrawlerCrawler'' \<mapsto>
            ClassObj (plain_class ''CrawlerCrawler''
                        [''CrawlerCrawler'', ''Crawler'', ''object''])]]\<rparr>"

section \<open>Properties\<close>

subsection \<open>Rules for sequencing\<close>

lemma bind_ret: "bind (ret x) f = f x"
  by (simp add: bind_def ret_def)

lemma bind_raise: "bind (raise e) f = raise e"
  by (simp add: bind_def raise_def)

lemma bind_emit: "bind (emit ev) f s = f () (s\<lparr>trace := trace s @ [ev]\<rparr>)"
  by (simp add: bind_def emit_def)

lemma lift_Inl: "lift (Inl e) = raise e"
  by (simp add: lift_def)

lemma lift_Inr: "lift (Inr x) = ret x"
  by (simp add: lift_def)

lemmas py_simps =
  bind_ret bind_raise bind_emit lift_Inl lift_Inr logging_info_def logging_error_def sleep_def

lemmas py_defs = bind_def lift_def raise_def ret_def emit_def

lemmas run_defs = run_def run_with_def main_def main_with_def OmegaConf_load_def initial_state_def

subsection \<open>String computations of the examples\<close>

lemma capitalize_website: "capitalize ''website'' = ''Website''"
  by code_simp

lemma lower_Website: "lower ''Website'' = ''website''"
  by code_simp

lemma split_WebsiteCrawler: "split ''WebsiteCrawler'' ''Crawler'' = [''Website'', '''']"
  by (simp add: split_def)

lemma py_int_7: "py_int lim ''7'' = Inr 7"
  by (simp add: py_int_def too_many_digits_def strip_def is_space_def parse_nat_def is_digit_def
        digit_val_def)


lemma capitalize_crawler: "capitalize ''crawler'' = ''Crawler''"
  by code_simp

lemma lower_crawler: "lower ''crawler'' = ''crawler''"
  by code_simp

lemma lower_Nil: "lower [] = []"
  by (simp add: lower_def)

lemma split_CrawlerCrawler: "split ''CrawlerCrawler'' ''Crawler'' = ['''', '''', '''']"
  by (simp add: split_def)

lemmas scenario_strings = capitalize_website lower_Website split_WebsiteCrawler py_int_7

subsection \<open>\<open>int\<close> on particular strings and on decimal numerals\<close>

lemma py_int_padded: "py_int lim '' 482 '' = Inr 482"
  by (simp add: py_int_def too_many_digits_def strip_def is_space_def parse_nat_def is_digit_def
        digit_val_def)

lemma py_int_signed: "py_int lim ''-1_5'' = Inr (- 15)"
  by (simp add: py_int_def too_many_digits_def strip_def is_space_def parse_nat_def is_digit_def
        digit_val_def)

lemma py_int_nbsp: "py_int lim [CHR 0xA0, CHR ''7''] = Inr 7"
  by (simp add: py_int_def too_many_digits_def strip_def is_space_def parse_nat_def is_digit_def
        digit_val_def)


lemma py_int_fraction: "py_int lim ''4.5'' = Inl (ValueError ''4.5'')"
  by (simp add: py_int_def too_many_digits_def strip_def is_space_def parse_nat_def is_digit_def
        digit_val_def)

lemma py_int_empty: "py_int lim [] = Inl (ValueError [])"
  by (simp add: py_int_def strip_def)

lemma is_digit_not_space: "is_digit c \<Longrightarrow> \<not> is_space c"
  by (auto simp: is_digit_def is_space_def Let_def)





text \<open>The decimal numeral of \<open>m\<close> is read as \<open>m\<close>.\<close>

lemma digit_char: "d < 10 \<Longrightarrow> is_digit (char_of (48 + d)) \<and> digit_val (char_of (48 + d)) = d"
  by (simp add: is_digit_def digit_val_def)

lemma decimal_digits: "decimal m \<noteq> [] \<and> (\<forall>c \<in> set (decimal m). is_digit c)"
proof (induction m rule: decimal.induct)
  case (1 n)
  show ?case
  proof (cases "n < 10")
    case True
    then show ?thesis
      using digit_char [of n] by (simp add: decimal.simps [of n])
  next
    case False
    with 1 digit_char [of "n mod 10"] show ?thesis
      by (simp add: decimal.simps [of n])
  qed
qed

lemma after_digit_digits:
  "\<forall>c \<in> set ds. is_digit c \<Longrightarrow>
     after_digit ds acc = Some (foldl (\<lambda>a c. 10 * a + digit_val c) acc ds)"
  by (induction ds acc rule: after_digit.induct) auto

lemma parse_nat_digits:
  assumes "ds \<noteq> []" and "\<forall>c \<in> set ds. is_digit c"
  shows "parse_nat ds = Some (foldl (\<lambda>a c. 10 * a + digit_val c) 0 ds)"
  using assms by (cases ds) (simp_all add: parse_nat_def after_digit_digits)

lemma decimal_value: "foldl (\<lambda>a c. 10 * a + digit_val c) 0 (decimal m) = m"
proof (induction m rule: decimal.induct)
  case (1 n)
  show ?case
  proof (cases "n < 10")
    case True
    then show ?thesis
      using digit_char [of n] by (simp add: decimal.simps [of n])
  next
    case False
    with 1 digit_char [of "n mod 10"] show ?thesis
      by (simp add: decimal.simps [of n])
  qed
qed

lemma strip_digits:
  assumes "ds \<noteq> []" and "\<forall>c \<in> set ds. is_digit c"
  shows "strip ds = ds"
proof -
  from assms have "is_digit (hd ds)" "is_digit (last ds)"
    by simp_all
  then have "\<not> is_space (hd ds)" "\<not> is_space (last ds)"
    by (simp_all add: is_digit_not_space)
  with assms(1) have "dropWhile is_space ds = ds" "dropWhile is_space (rev ds) = rev ds"
    by (simp_all add: dropWhile_eq_self_iff hd_rev)
  then show ?thesis by (simp add: strip_def)
qed

lemma py_int_decimal:
  assumes "length (decimal m) \<le> 640 \<or> lim = 0 \<or> length (decimal m) \<le> lim"
  shows "py_int lim (decimal m) = Inr (int m)"
proof -
  obtain c cs where d: "decimal m = c # cs"
    using decimal_digits [of m] by (cases "decimal m") auto
  have digs: "decimal m \<noteq> []" "\<forall>c \<in> set (decimal m). is_digit c"
    using decimal_digits [of m] by simp_all
  then have c: "is_digit c" by (simp add: d)
  then have nosign: "c \<noteq> CHR ''-''" "c \<noteq> CHR ''+''"
    by (auto simp: is_digit_def)
  have "filter is_digit (decimal m) = decimal m"
    using digs(2) by simp
  with assms have small: "\<not> too_many_digits lim (decimal m)"
    by (auto simp: too_many_digits_def)
  have "parse_nat (decimal m) = Some m"
    using parse_nat_digits [OF digs] by (simp add: decimal_value)
  with small nosign show ?thesis
    using strip_digits [OF digs] by (simp add: py_int_def d [symmetric] Let_def) (simp add: d nosign)
qed

lemma decimal_482: "decimal 482 = ''482''"
  by code_simp

subsection \<open>The naming convention\<close>

text \<open>\<open>split\<close> always returns at least one piece, so line 17 never raises.\<close>

lemma split_aux_nonempty: "split_aux sep acc s \<noteq> []"
  by (induction sep acc s rule: split_aux.induct) auto

lemma split_nonempty: "split s sep \<noteq> []"
  by (simp add: split_def split_aux_nonempty)

text \<open>
  A string in which the separator starts nowhere, followed by the separator, splits into
  that string and the empty string.
\<close>

lemma split_aux_suffix:
  assumes "sep \<noteq> []" and "\<forall>i < length s. take (length sep) (drop i (s @ sep)) \<noteq> sep"
  shows "split_aux sep acc (s @ sep) = [rev acc @ s, []]"
  using assms(2)
proof (induction s arbitrary: acc)
  case Nil
  from assms(1) obtain c cs where sep: "sep = c # cs" by (cases sep) auto
  show ?case by (simp add: sep)
next
  case (Cons x xs)
  from Cons.prems have here: "take (length sep) ((x # xs) @ sep) \<noteq> sep"
    by force
  from Cons.prems have rest: "\<forall>i < length xs. take (length sep) (drop i (xs @ sep)) \<noteq> sep"
    by force
  from here have "split_aux sep acc ((x # xs) @ sep) = split_aux sep (x # acc) (xs @ sep)"
    by simp
  with Cons.IH [OF rest, of "x # acc"] show ?case by simp
qed

lemma lower_chr_not_C: "lower_chr c \<noteq> CHR ''C''"
proof
  assume "lower_chr c = CHR ''C''"
  then have "(of_char (lower_chr c) :: nat) = of_char (CHR ''C'')"
    by simp
  then show False
    by (auto simp: lower_chr_def Let_def split: if_splits)
qed

lemma lower_chr_upper_chr: "lower_chr (upper_chr c) = lower_chr c"
  by (auto simp: lower_chr_def upper_chr_def Let_def)

lemma lower_chr_idem: "lower_chr (lower_chr c) = lower_chr c"
  by (auto simp: lower_chr_def Let_def)

lemma lower_capitalize: "lower (capitalize T) = lower T"
  by (cases T) (simp_all add: lower_def capitalize_def lower_chr_upper_chr lower_chr_idem)

lemma capitalize_tail_not_C:
  assumes "0 < i" "i < length (capitalize T)"
  shows "capitalize T ! i \<noteq> CHR ''C''"
proof (cases T)
  case Nil
  with assms show ?thesis by (simp add: capitalize_def)
next
  case (Cons c cs)
  with assms obtain j where "i = Suc j" "j < length cs"
    by (cases i) (auto simp: capitalize_def)
  with Cons show ?thesis by (simp add: capitalize_def lower_chr_not_C)
qed

text \<open>
  Unless the capitalized type name itself begins with \<open>Crawler\<close>, line 17 recovers it
  from the class name.
\<close>

lemma split_conventional:
  assumes "take 7 (capitalize T) \<noteq> ''Crawler''"
  shows "split (capitalize T @ ''Crawler'') ''Crawler'' = [capitalize T, []]"
proof -
  let ?s = "capitalize T"
  have "take (length ''Crawler'') (drop i (?s @ ''Crawler'')) \<noteq> ''Crawler''"
    if i: "i < length ?s" for i
  proof
    assume "take (length ''Crawler'') (drop i (?s @ ''Crawler'')) = ''Crawler''"
    moreover have "length ''Crawler'' = 7"
      by simp
    ultimately have eq: "take 7 (drop i (?s @ ''Crawler'')) = ''Crawler''"
      by (simp only:)
    show False
    proof (cases "i = 0")
      case True
      show False
      proof (cases "7 \<le> length ?s")
        case True
        with eq \<open>i = 0\<close> assms show False by simp
      next
        case False
        define k where "k = length ?s"
        from False i have k: "0 < k" "k < 7" by (auto simp: k_def)
        from eq \<open>i = 0\<close> have "take 7 (?s @ ''Crawler'') ! k = ''Crawler'' ! k"
          by simp
        with k have "''Crawler'' ! k = CHR ''C''"
          by (simp add: k_def nth_append)
        moreover from k have "k = 1 \<or> k = 2 \<or> k = 3 \<or> k = 4 \<or> k = 5 \<or> k = 6"
          by arith
        ultimately show False by auto
      qed
    next
      case False
      from eq have "take 7 (drop i (?s @ ''Crawler'')) ! 0 = ''Crawler'' ! 0"
        by simp
      with i have "?s ! i = CHR ''C''"
        by (simp add: nth_append)
      with capitalize_tail_not_C [of i T] False i show False by simp
    qed
  qed
  then have "\<forall>i < length ?s. take (length ''Crawler'') (drop i (?s @ ''Crawler'')) \<noteq> ''Crawler''"
    by blast
  from split_aux_suffix [OF _ this, of "[]"] show ?thesis
    by (simp add: split_def)
qed

text \<open>
  The call of line 131 for such a type name \<open>T\<close>: the module asked for is
  \<open>crawlers.<lower T>_crawler\<close> and the attribute \<open><capitalize T>Crawler\<close>. A missing
  module and a missing attribute raise after the import, before any constructor call;
  a class derived from \<open>Crawler\<close> is constructed on the arguments.
\<close>

lemma resolve_conventional:
  assumes "take 7 (capitalize T) \<noteq> ''Crawler''"
  shows "instantiate_crawler w ''Crawler'' ''crawlers'' (capitalize T @ ''Crawler'') args s =
     (let s' = s\<lparr>sys_path := abspath w ''crawlers'' # sys_path s,
                 trace := trace s @ [ImportModule (''crawlers.'' @ lower T @ ''_crawler'')]\<rparr> in
      case modules w (''crawlers.'' @ lower T @ ''_crawler'') of
        None \<Rightarrow> (Inl (ModuleNotFoundError (''crawlers.'' @ lower T @ ''_crawler'')), s')
      | Some m \<Rightarrow>
          (case m (capitalize T @ ''Crawler'') of
             None \<Rightarrow> (Inl (AttributeError (capitalize T @ ''Crawler'')), s')
           | Some OtherObj \<Rightarrow> (Inl (TypeError ''issubclass() arg 1 must be a class''), s')
           | Some (ClassObj c) \<Rightarrow>
               if ''Crawler'' \<in> set (cls_mro c) then construct c args s'
               else (Inl (TypeError (capitalize T @ ''Crawler is not a subclass of Crawler'')), s')))"
  by (simp add: instantiate_crawler_def import_module_def split_conventional [OF assms]
        lower_capitalize py_simps py_defs split: option.splits pyobj.splits)

subsection \<open>What each step adds to the trace\<close>


lemma cfg_setattr_Inr:
  "cfg_setattr g k v = Inr g' \<Longrightarrow> \<exists>al. g = CDict al \<and> g' = CDict (AList.update k v al)"
  by (cases g) auto

lemma instantiate_sys_path:
  "sys_path (snd (instantiate_crawler w b f c args s)) = abspath w f # sys_path s"
  unfolding instantiate_crawler_def import_module_def construct_def
  by (auto simp: py_simps py_defs
      split: sum.splits option.splits prod.splits list.splits pyobj.splits)

lemma instantiate_trace:
  "instantiate_crawler w b f c args s = (r, s') \<Longrightarrow>
     filter reset_or_crawl (trace s') = filter reset_or_crawl (trace s) \<and>
     (Crawl n \<in> set (trace s') \<longleftrightarrow> Crawl n \<in> set (trace s))"
  unfolding instantiate_crawler_def import_module_def construct_def
  by (auto simp: py_simps py_defs
      split: sum.splits option.splits prod.splits list.splits pyobj.splits if_splits)

lemma instantiate_no_reset:
  "instantiate_crawler w b f c args s = (r, s') \<Longrightarrow>
     filter reset_event (trace s') = filter reset_event (trace s)"
  unfolding instantiate_crawler_def import_module_def construct_def
  by (auto simp: py_simps py_defs
      split: sum.splits option.splits prod.splits list.splits pyobj.splits if_splits)

lemma crawl_trace:
  "crawl x s = (r, s') \<Longrightarrow> \<exists>n. trace s' = trace s @ [Crawl n]"
  by (cases x) (auto simp: py_simps py_defs split: option.splits)

lemma crawl_no_reset:
  "crawl x s = (r, s') \<Longrightarrow> filter reset_event (trace s') = filter reset_event (trace s)"
  by (cases x) (auto simp: py_simps py_defs split: option.splits)

lemma reset_corpus_trace:
  "reset_corpus w en cu co au ai asec s = (r, s') \<Longrightarrow>
     (Crawl c \<in> set (trace s') \<longleftrightarrow> Crawl c \<in> set (trace s)) \<and>
     (r = Inr () \<longrightarrow>
        filter reset_or_crawl (trace s') = filter reset_or_crawl (trace s) @
          [TokenFetch [Fmt au, Lit ''/oauth2/token''],
           HttpPost [Lit ''https://'', Fmt en, Lit ''/v1/reset-corpus'']])"
  unfolding reset_corpus_def get_jwt_token_def Let_def
  by (auto simp: py_simps py_defs split: sum.splits option.splits prod.splits if_splits)

lemma ingest_disabled_no_reset:
  "ingest False w cfg k cu co s = (r, s') \<Longrightarrow>
     filter reset_event (trace s') = filter reset_event (trace s)"
  unfolding ingest_def
  apply (simp add: py_simps py_defs split: sum.splits prod.splits)
  apply (auto dest!: instantiate_no_reset crawl_no_reset)
  done

lemma ingest_reset_before_crawl:
  "ingest True w cfg k cu co s = (r, s') \<Longrightarrow> Crawl c \<notin> set (trace s) \<Longrightarrow>
   Crawl c \<in> set (trace s') \<Longrightarrow>
     \<exists>tk url. filter reset_or_crawl (trace s') =
       filter reset_or_crawl (trace s) @ [TokenFetch tk, HttpPost url, Sleep 5, Crawl c]"
  unfolding ingest_def
  apply (simp add: py_simps py_defs split: sum.splits prod.splits)
  apply (auto dest!: instantiate_trace reset_corpus_trace crawl_trace)
  done

lemma run_disabled_no_reset: "filter reset_event (trace (snd (run w))) = []"
proof -
  have "\<And>cfg k cu co s. filter reset_event (trace (snd (ingest False w cfg k cu co s))) =
      filter reset_event (trace s)"
    using ingest_disabled_no_reset by (metis prod.collapse)
  then show ?thesis
    unfolding run_defs Let_def
    by (auto simp: py_simps py_defs split: option.splits sum.splits)
qed

lemma run_enabled_reset_before_crawl:
  assumes "Crawl c \<in> set (trace (snd (run_with True w)))"
  shows "\<exists>tk url. filter reset_or_crawl (trace (snd (run_with True w))) =
     [TokenFetch tk, HttpPost url, Sleep 5, Crawl c]"
proof -
  have step: "\<And>cfg k cu co s.
      Crawl c \<in> set (trace (snd (ingest True w cfg k cu co s))) \<Longrightarrow>
      Crawl c \<notin> set (trace s) \<Longrightarrow>
      \<exists>tk url. filter reset_or_crawl (trace (snd (ingest True w cfg k cu co s))) =
        filter reset_or_crawl (trace s) @ [TokenFetch tk, HttpPost url, Sleep 5, Crawl c]"
    using ingest_reset_before_crawl by (metis prod.collapse)
  show ?thesis
    using assms unfolding run_defs Let_def
    apply (simp add: py_simps py_defs split: option.splits sum.splits)
    apply (auto dest!: step)
    done
qed

subsection \<open>Runs of the example worlds\<close>

lemma scenario_world_run:
  "run scenario_world =
     (Inr (), \<lparr>sys_path = [''/app/crawlers'', ''/app''], trace = scenario_trace\<rparr>)"
  unfolding run_defs Let_def ingest_def
  by (simp add: scenario_world_def scenario_cfg_def plain_class_def scenario_trace_def
        scenario_args_def scenario_strings merge_env_def cfg_assign_def cfg_validate_def cfg_select_def
        cfg_value_def
        instantiate_crawler_def import_module_def construct_def
        truthy_def fmt_env_def py_simps py_defs)

lemma reset_world_run:
  "trace (snd (run_with True reset_world)) =
     [Log INFO [Lit ''Starting ingest.py''],
      Log INFO [Lit ''Config file: '', Fmt (CStr ''cfg.yaml'')],
      Log INFO [Lit ''Profile name: '', Fmt (CStr ''p'')],
      LoadConfig ''cfg.yaml'',
      Log INFO [Lit ''Loaded configuration''],
      Log INFO [Lit ''Updated configuration with environment variables''],
      Log INFO [Lit ''Endpoint: '', Fmt (CStr ''api.vectara.io'')],
      Log INFO [Lit ''Customer ID: '', Fmt (CStr ''1000'')],
      Log INFO [Lit ''Corpus ID: '', Fmt (CInt 7)],
      Log INFO [Lit ''API Key: '', Fmt (CStr ''k''), Lit ''...''],
      Log INFO [Lit ''Crawler Type: '', Fmt (CStr ''website'')],
      ImportModule ''crawlers.website_crawler'',
      Construct ''WebsiteCrawler''
        [CDict [(''vectara'', CDict [(''auth_url'', CStr ''https://auth.example''),
                                    (''auth_id'', CStr ''id''), (''auth_secret'', CStr ''secret''),
                                    (''api_key'', CStr ''k''), (''customer_id'', CStr ''1000''),
                                    (''corpus_id'', CInt 7)]),
                (''crawling'', CDict [(''crawler_type'', CStr ''website'')])],
         CStr ''api.vectara.io'', CStr ''1000'', CInt 7, CStr ''k''],
      Log INFO [Lit ''Instantiated '', Fmt (CStr ''Website''), Lit ''Crawler''],
      Log INFO [Lit ''Resetting corpus''],
      TokenFetch [Fmt (CStr ''https://auth.example''), Lit ''/oauth2/token''],
      HttpPost [Lit ''https://'', Fmt (CStr ''api.vectara.io''), Lit ''/v1/reset-corpus''],
      Log INFO [Lit ''Reset corpus '', Fmt (CInt 7)],
      Sleep 5,
      Log INFO [Lit ''Starting crawl of type '', Fmt (CStr ''website''), Lit ''...''],
      Crawl ''WebsiteCrawler'',
      Log INFO [Lit ''Finished crawl of type '', Fmt (CStr ''website''), Lit ''...'']]"
  unfolding run_defs Let_def ingest_def
  by (simp add: reset_world_def scenario_world_def plain_class_def
        scenario_strings merge_env_def cfg_assign_def cfg_validate_def cfg_select_def cfg_value_def
        instantiate_crawler_def import_module_def construct_def
        reset_corpus_def get_jwt_token_def
        truthy_def fmt_env_def py_simps py_defs)

lemma no_key_world_run:
  "run_with flag no_key_world =
     (Inr (),
      \<lparr>sys_path = [''/app''],
       trace = [Log INFO [Lit ''Starting ingest.py''],
                Log INFO [Lit ''Config file: '', Fmt (CStr ''cfg.yaml'')],
                Log INFO [Lit ''Profile name: '', Fmt (CStr ''p'')],
                LoadConfig ''cfg.yaml'',
                Log INFO [Lit ''Loaded configuration''],
                Log ERROR [Lit ''VECTARA_API_KEY environment variable not set'']]\<rparr>)"
  unfolding run_defs Let_def
  by (simp add: no_key_world_def scenario_world_def truthy_def fmt_env_def py_simps py_defs)

lemma unreadable_world_run:
  "run_with flag unreadable_world =
     (Inl (Raised ''FileNotFoundError''),
      \<lparr>sys_path = [''/app''],
       trace = [Log INFO [Lit ''Starting ingest.py''],
                Log INFO [Lit ''Config file: '', Fmt (CStr ''missing.yaml'')],
                Log INFO [Lit ''Profile name: '', Fmt (CStr ''p'')],
                LoadConfig ''missing.yaml'']\<rparr>)"
  unfolding run_defs Let_def
  by (simp add: unreadable_world_def scenario_world_def truthy_def fmt_env_def py_simps py_defs)

lemma scenario_instantiate:
  "instantiate_crawler scenario_world ''Crawler'' ''crawlers'' ''WebsiteCrawler'' scenario_args
       (initial_state scenario_world) =
     (Inr (Instance (plain_class ''WebsiteCrawler'' [''WebsiteCrawler'', ''Crawler'', ''object''])
             scenario_args),
      \<lparr>sys_path = [''/app/crawlers'', ''/app''],
       trace = [ImportModule ''crawlers.website_crawler'',
                Construct ''WebsiteCrawler'' scenario_args]\<rparr>)"
  by (simp add: scenario_world_def plain_class_def initial_state_def scenario_strings
        instantiate_crawler_def import_module_def construct_def py_defs)

lemma marker_world_run:
  "fst (run marker_world) = Inl (MissingMandatoryValue ''vectara.api_key'')"
  unfolding run_defs Let_def ingest_def
  by (simp add: marker_world_def scenario_world_def scenario_cfg_def
        scenario_strings merge_env_def cfg_assign_def cfg_validate_def cfg_select_def cfg_value_def
        truthy_def fmt_env_def py_simps py_defs)

section \<open>The claims\<close>

subsection \<open>C1: resolution by naming convention\<close>

text \<open>
  C1, at the type name \<open>crawler\<close>. The world holds the implementation the convention asks
  for: module \<open>crawlers.crawler_crawler\<close> with the class \<open>CrawlerCrawler\<close>, derived from
  \<open>Crawler\<close>. Line 17 splits the class name \<open>CrawlerCrawler\<close> at its first \<open>Crawler\<close>, so
  the stem is empty, the module asked for is \<open>crawlers._crawler\<close>, and the resolution
  ends with \<open>ModuleNotFoundError\<close> although the implementation exists. (For every type
  name whose capitalized form does not begin with \<open>Crawler\<close> the resolution follows the
  convention: \<open>resolve_conventional\<close> above.)
\<close>

theorem crawler_type_crawler_not_resolved:
  "modules crawler_type_world (''crawlers'' @ ''.'' @ lower ''crawler'' @ ''_crawler'') =
      Some [capitalize ''crawler'' @ ''Crawler'' \<mapsto>
              ClassObj (plain_class ''CrawlerCrawler'' [''CrawlerCrawler'', ''Crawler'', ''object''])] \<and>
   instantiate_crawler crawler_type_world ''Crawler'' ''crawlers''
       (capitalize ''crawler'' @ ''Crawler'') scenario_args (initial_state crawler_type_world) =
     (Inl (ModuleNotFoundError ''crawlers._crawler''),
      \<lparr>sys_path = [''/app/crawlers'', ''/app''], trace = [ImportModule ''crawlers._crawler'']\<rparr>)"
  by (simp add: crawler_type_world_def scenario_world_def initial_state_def capitalize_crawler
        lower_crawler lower_Nil split_CrawlerCrawler instantiate_crawler_def import_module_def
        py_defs)

subsection \<open>C2: the end-to-end scenario\<close>

text \<open>
  C2, as the code has it. With the environment of the scenario, a configuration that
  declares the crawler type \<open>website\<close> and no endpoint, and a module
  \<open>crawlers.website_crawler\<close> whose \<open>WebsiteCrawler\<close> is derived from \<open>Crawler\<close> and whose
  constructor and \<open>crawl\<close> return, the run imports that module, constructs the class
  once with the merged configuration, the default endpoint, the customer id as the string
  \<open>1000\<close>, the corpus id as the number 7 and the key, and calls \<open>crawl\<close> once between
  the start and the finish log line. The whole trace of the run is given.
\<close>

theorem scenario_run:
  assumes env: "environ w ''CONFIG_FILE'' = Some ''cfg.yaml''" "environ w ''PROFILE'' = Some ''p''"
      "environ w ''VECTARA_API_KEY'' = Some ''k''" "environ w ''VECTARA_CUSTOMER_ID'' = Some ''1000''"
      "environ w ''VECTARA_CORPUS_ID'' = Some ''7''"
    and cfg: "load_config w ''cfg.yaml'' = Inr kvs" "map_of kvs ''vectara'' = Some (CDict vs)"
      "map_of vs ''endpoint'' = None" "map_of kvs ''crawling'' = Some (CDict cs)"
      "map_of cs ''crawler_type'' = Some (CStr ''website'')"
    and plugin: "modules w ''crawlers.website_crawler'' = Some m"
      "m ''WebsiteCrawler'' = Some (ClassObj c)" "''Crawler'' \<in> set (cls_mro c)"
    and args: "args =
        [CDict (AList.update ''vectara''
           (CDict (AList.update ''corpus_id'' (CInt 7) (AList.update ''customer_id'' (CStr ''1000'')
              (AList.update ''api_key'' (CStr ''k'') vs)))) kvs),
         CStr ''api.vectara.io'', CStr ''1000'', CInt 7, CStr ''k'']"
    and returns: "cls_init c args = None" "cls_crawl c args = None"
  shows "run w = (Inr (),
     \<lparr>sys_path = abspath w ''crawlers'' # initial_path w,
      trace = [Log INFO [Lit ''Starting ingest.py''],
               Log INFO [Lit ''Config file: '', Fmt (CStr ''cfg.yaml'')],
               Log INFO [Lit ''Profile name: '', Fmt (CStr ''p'')],
               LoadConfig ''cfg.yaml'',
               Log INFO [Lit ''Loaded configuration''],
               Log INFO [Lit ''Updated configuration with environment variables''],
               Log INFO [Lit ''Endpoint: '', Fmt (CStr ''api.vectara.io'')],
               Log INFO [Lit ''Customer ID: '', Fmt (CStr ''1000'')],
               Log INFO [Lit ''Corpus ID: '', Fmt (CInt 7)],
               Log INFO [Lit ''API Key: '', Fmt (CStr ''k''), Lit ''...''],
               Log INFO [Lit ''Crawler Type: '', Fmt (CStr ''website'')],
               ImportModule ''crawlers.website_crawler'',
               Construct (cls_name c) args,
               Log INFO [Lit ''Instantiated '', Fmt (CStr ''Website''), Lit ''Crawler''],
               Log INFO [Lit ''Starting crawl of type '', Fmt (CStr ''website''), Lit ''...''],
               Crawl (cls_name c),
               Log INFO [Lit ''Finished crawl of type '', Fmt (CStr ''website''), Lit ''...'']]\<rparr>)"
proof -
  let ?grp = "CDict (AList.update ''corpus_id'' (CInt 7) (AList.update ''customer_id'' (CStr ''1000'')
      (AList.update ''api_key'' (CStr ''k'') vs)))"
  have merged: "merge_env w (CDict kvs) ''k'' ''1000'' ''7'' = Inr (hd args)"
    using cfg(2)
    by (simp add: args merge_env_def cfg_assign_def cfg_validate_def AList.update_conv' py_int_7)
  have grp: "cfg_getattr w (hd args) [] (hd args) ''vectara'' = Inr ?grp"
    by (simp add: args AList.update_conv' cfg_value_def)
  have sel: "cfg_select w (hd args) ''crawling'' ''crawler_type'' = Inr (CStr ''website'')"
      "cfg_select w (hd args) ''vectara'' ''customer_id'' = Inr (CStr ''1000'')"
      "cfg_select w (hd args) ''vectara'' ''corpus_id'' = Inr (CInt 7)"
      "cfg_select w (hd args) ''vectara'' ''api_key'' = Inr (CStr ''k'')"
    using cfg by (simp_all add: args cfg_select_def cfg_value_def AList.update_conv')
  have inst: "\<And>s. instantiate_crawler w ''Crawler'' ''crawlers'' ''WebsiteCrawler'' args s =
      (Inr (Instance c args),
       s\<lparr>sys_path := abspath w ''crawlers'' # sys_path s,
         trace := trace s @ [ImportModule ''crawlers.website_crawler'', Construct (cls_name c) args]\<rparr>)"
    using plugin returns
    by (simp add: instantiate_crawler_def import_module_def construct_def split_WebsiteCrawler
          lower_Website py_defs)
  have args': "[hd args, CStr ''api.vectara.io'', CStr ''1000'', CInt 7, CStr ''k''] = args"
    by (simp add: args)
  show ?thesis
    unfolding run_defs Let_def ingest_def
    using env cfg(1,3) returns
    by (simp add: merged grp sel args' inst capitalize_website AList.update_conv' truthy_def
          fmt_env_def py_simps py_defs)
qed

text \<open>The scenario world meets the hypotheses, and its run is the trace above.\<close>

theorem scenario_run_witness:
  "run scenario_world =
     (Inr (), \<lparr>sys_path = [''/app/crawlers'', ''/app''], trace = scenario_trace\<rparr>)"
  using scenario_run [where w = scenario_world and kvs = scenario_cfg and vs = "[]"
      and cs = "[(''crawler_type'', CStr ''website'')]"
      and m = "[''WebsiteCrawler'' \<mapsto>
                 ClassObj (plain_class ''WebsiteCrawler'' [''WebsiteCrawler'', ''Crawler'', ''object''])]"
      and c = "plain_class ''WebsiteCrawler'' [''WebsiteCrawler'', ''Crawler'', ''object'']"
      and args = scenario_args]
  by (simp add: scenario_world_def scenario_cfg_def plain_class_def scenario_trace_def
        scenario_args_def)

text \<open>
  C2 as stated fails: the constructor is not called with the customer id as the number
  1000. Line 113 stores the environment's string and line 119 reads it back.
\<close>

theorem scenario_customer_id_not_numeric:
  "constructor_calls (trace (snd (run scenario_world))) \<noteq>
     [(''WebsiteCrawler'',
       [hd scenario_args, CStr ''api.vectara.io'', CInt 1000, CInt 7, CStr ''k''])]"
  by (simp add: scenario_world_run scenario_trace_def scenario_args_def)

subsection \<open>C3: missing variables and an unreadable configuration\<close>

text \<open>
  C3, as the code has it. When \<open>CONFIG_FILE\<close> or \<open>PROFILE\<close> is absent or empty, or when
  the configuration loads and one of the three \<open>VECTARA\<close> variables is absent or
  empty, \<open>main\<close> returns without an exception and the last thing it did was to log an
  error. When \<open>CONFIG_FILE\<close> and \<open>PROFILE\<close> are set and the loader raises, that
  exception leaves \<open>main\<close>.
\<close>

theorem missing_variable_clean_return:
  "(truthy (environ w ''CONFIG_FILE'') = None \<or> truthy (environ w ''PROFILE'') = None \<or>
     (\<exists>cn kvs. truthy (environ w ''CONFIG_FILE'') = Some cn \<and> load_config w cn = Inr kvs \<and>
        (truthy (environ w ''VECTARA_API_KEY'') = None \<or>
         truthy (environ w ''VECTARA_CUSTOMER_ID'') = None \<or>
         truthy (environ w ''VECTARA_CORPUS_ID'') = None))
     \<longrightarrow> fst (run w) = Inr () \<and> (\<exists>msg. last (trace (snd (run w))) = Log ERROR msg)) \<and>
   (\<forall>cn pn e. truthy (environ w ''CONFIG_FILE'') = Some cn \<and>
       truthy (environ w ''PROFILE'') = Some pn \<and> load_config w cn = Inl e
     \<longrightarrow> fst (run w) = Inl e)"
  unfolding run_defs Let_def
  by (auto simp: py_simps py_defs split: option.splits sum.splits)

text \<open>
  Both parts at concrete worlds: the API key missing with a readable configuration, and
  an unreadable configuration.
\<close>

theorem missing_variable_clean_return_witness:
  "(truthy (environ no_key_world ''VECTARA_API_KEY'') = None \<and>
    load_config no_key_world ''cfg.yaml'' = Inr scenario_cfg \<and>
    fst (run no_key_world) = Inr () \<and>
    (\<exists>msg. last (trace (snd (run no_key_world))) = Log ERROR msg)) \<and>
   (load_config unreadable_world ''missing.yaml'' = Inl (Raised ''FileNotFoundError'') \<and>
    fst (run unreadable_world) = Inl (Raised ''FileNotFoundError''))"
  using missing_variable_clean_return [of no_key_world]
    missing_variable_clean_return [of unreadable_world]
  by (simp add: no_key_world_def unreadable_world_def scenario_world_def truthy_def)

text \<open>
  C3 as stated fails: with an unreadable configuration file (and, here, the three
  \<open>VECTARA\<close> variables absent too) the loader's exception leaves \<open>main\<close>.
\<close>

theorem unreadable_config_escapes:
  "fst (run unreadable_world) = Inl (Raised ''FileNotFoundError'')"
  using unreadable_world_run [of False] by (simp add: run_def run_with_def main_def)

subsection \<open>C4: a missing variable stops the run before anything goes out\<close>

text \<open>
  C4. When one of the five required variables is absent (or empty), the run, with the
  reset switch on or off, has no token fetch, no reset call, no wait, no module import,
  no constructor call and no crawl in its trace.
\<close>

theorem missing_variable_no_outbound:
  assumes "\<exists>v \<in> set [''CONFIG_FILE'', ''PROFILE'', ''VECTARA_API_KEY'', ''VECTARA_CUSTOMER_ID'',
                     ''VECTARA_CORPUS_ID'']. truthy (environ w v) = None"
  shows "filter outbound (trace (snd (run_with flag w))) = []"
  using assms unfolding run_defs Let_def
  by (auto simp: py_simps py_defs split: option.splits sum.splits)

theorem missing_variable_no_outbound_witness:
  "(\<exists>v \<in> set [''CONFIG_FILE'', ''PROFILE'', ''VECTARA_API_KEY'', ''VECTARA_CUSTOMER_ID'',
              ''VECTARA_CORPUS_ID'']. truthy (environ no_key_world v) = None) \<and>
   filter outbound (trace (snd (run_with True no_key_world))) = []"
proof -
  have h: "\<exists>v \<in> set [''CONFIG_FILE'', ''PROFILE'', ''VECTARA_API_KEY'', ''VECTARA_CUSTOMER_ID'',
              ''VECTARA_CORPUS_ID'']. truthy (environ no_key_world v) = None"
    by (simp add: no_key_world_def truthy_def)
  from h missing_variable_no_outbound [OF h, of True] show ?thesis by blast
qed

subsection \<open>C5: the environment's identifiers and the file's\<close>

text \<open>
  C5, as the code has it. Take any document with a \<open>vectara\<close> mapping, whatever that
  mapping holds, an API key and a customer id in the environment that are not \<open>???\<close> and
  contain no \<open>${\<close>, and a corpus id that \<open>int\<close> accepts. Then the merge of lines 112 to
  114 completes, and afterwards \<open>cfg.vectara.api_key\<close> and \<open>cfg.vectara.customer_id\<close> read
  as the environment's strings and \<open>cfg.vectara.corpus_id\<close> as the integer of the corpus
  id. That integer is the decimal value: for the decimal numeral of any \<open>m\<close> within the
  digit limit the corpus id reads as \<open>m\<close>.
\<close>

theorem merge_env_precedence:
  "(map_of kvs ''vectara'' = Some (CDict vs) \<and>
    key \<noteq> ''???'' \<and> \<not> contains ''${'' key \<and> cust \<noteq> ''???'' \<and> \<not> contains ''${'' cust \<and>
    py_int (int_max_str_digits w) corp = Inr n \<longrightarrow>
      (\<exists>cfg. merge_env w (CDict kvs) key cust corp = Inr cfg \<and>
         cfg_select w cfg ''vectara'' ''api_key'' = Inr (CStr key) \<and>
         cfg_select w cfg ''vectara'' ''customer_id'' = Inr (CStr cust) \<and>
         cfg_select w cfg ''vectara'' ''corpus_id'' = Inr (CInt n))) \<and>
   (map_of kvs ''vectara'' = Some (CDict vs) \<and>
    key \<noteq> ''???'' \<and> \<not> contains ''${'' key \<and> cust \<noteq> ''???'' \<and> \<not> contains ''${'' cust \<and>
    (length (decimal m) \<le> 640 \<or> int_max_str_digits w = 0 \<or>
     length (decimal m) \<le> int_max_str_digits w) \<longrightarrow>
      (\<exists>cfg. merge_env w (CDict kvs) key cust (decimal m) = Inr cfg \<and>
         cfg_select w cfg ''vectara'' ''api_key'' = Inr (CStr key) \<and>
         cfg_select w cfg ''vectara'' ''customer_id'' = Inr (CStr cust) \<and>
         cfg_select w cfg ''vectara'' ''corpus_id'' = Inr (CInt (int m))))"
proof -
  have merged: "\<exists>cfg. merge_env w (CDict kvs) key cust corp = Inr cfg \<and>
         cfg_select w cfg ''vectara'' ''api_key'' = Inr (CStr key) \<and>
         cfg_select w cfg ''vectara'' ''customer_id'' = Inr (CStr cust) \<and>
         cfg_select w cfg ''vectara'' ''corpus_id'' = Inr (CInt n)"
    if grp: "map_of kvs ''vectara'' = Some (CDict vs)"
      and plain: "key \<noteq> ''???''" "\<not> contains ''${'' key" "cust \<noteq> ''???''" "\<not> contains ''${'' cust"
      and num: "py_int (int_max_str_digits w) corp = Inr n" for corp n
  proof -
    let ?cfg = "CDict (AList.update ''vectara''
        (CDict (AList.update ''corpus_id'' (CInt n) (AList.update ''customer_id'' (CStr cust)
           (AList.update ''api_key'' (CStr key) vs)))) kvs)"
    have "merge_env w (CDict kvs) key cust corp = Inr ?cfg"
      using grp plain num
      by (simp add: merge_env_def cfg_assign_def cfg_validate_def AList.update_conv')
    moreover have "cfg_select w ?cfg ''vectara'' ''api_key'' = Inr (CStr key)"
      using plain by (simp add: cfg_select_def cfg_value_def AList.update_conv')
    moreover have "cfg_select w ?cfg ''vectara'' ''customer_id'' = Inr (CStr cust)"
      using plain by (simp add: cfg_select_def cfg_value_def AList.update_conv')
    moreover have "cfg_select w ?cfg ''vectara'' ''corpus_id'' = Inr (CInt n)"
      by (simp add: cfg_select_def cfg_value_def AList.update_conv')
    ultimately show ?thesis by blast
  qed
  show ?thesis
  proof (intro conjI impI)
    assume "map_of kvs ''vectara'' = Some (CDict vs) \<and>
      key \<noteq> ''???'' \<and> \<not> contains ''${'' key \<and> cust \<noteq> ''???'' \<and> \<not> contains ''${'' cust \<and>
      py_int (int_max_str_digits w) corp = Inr n"
    then show "\<exists>cfg. merge_env w (CDict kvs) key cust corp = Inr cfg \<and>
         cfg_select w cfg ''vectara'' ''api_key'' = Inr (CStr key) \<and>
         cfg_select w cfg ''vectara'' ''customer_id'' = Inr (CStr cust) \<and>
         cfg_select w cfg ''vectara'' ''corpus_id'' = Inr (CInt n)"
      using merged by blast
  next
    assume a: "map_of kvs ''vectara'' = Some (CDict vs) \<and>
      key \<noteq> ''???'' \<and> \<not> contains ''${'' key \<and> cust \<noteq> ''???'' \<and> \<not> contains ''${'' cust \<and>
      (length (decimal m) \<le> 640 \<or> int_max_str_digits w = 0 \<or>
       length (decimal m) \<le> int_max_str_digits w)"
    then have "py_int (int_max_str_digits w) (decimal m) = Inr (int m)"
      by (intro py_int_decimal) simp
    with a merged [of "decimal m" "int m"]
    show "\<exists>cfg. merge_env w (CDict kvs) key cust (decimal m) = Inr cfg \<and>
         cfg_select w cfg ''vectara'' ''api_key'' = Inr (CStr key) \<and>
         cfg_select w cfg ''vectara'' ''customer_id'' = Inr (CStr cust) \<and>
         cfg_select w cfg ''vectara'' ''corpus_id'' = Inr (CInt (int m))"
      by blast
  qed
qed

text \<open>
  A document that holds its own three values, merged with the key \<open>k\<close>, the customer id
  \<open>1000\<close> and the corpus ids \<open>7\<close> and \<open>482\<close>.
\<close>

theorem merge_env_precedence_witness:
  "map_of conflicting_cfg ''vectara'' =
     Some (CDict [(''api_key'', CStr ''from-file''), (''customer_id'', CInt 5),
                  (''corpus_id'', CStr ''99'')]) \<and>
   py_int (int_max_str_digits scenario_world) ''7'' = Inr 7 \<and>
   merge_env scenario_world (CDict conflicting_cfg) ''k'' ''1000'' ''7'' = Inr conflicting_merged \<and>
   cfg_select scenario_world conflicting_merged ''vectara'' ''api_key'' = Inr (CStr ''k'') \<and>
   cfg_select scenario_world conflicting_merged ''vectara'' ''customer_id'' = Inr (CStr ''1000'') \<and>
   cfg_select scenario_world conflicting_merged ''vectara'' ''corpus_id'' = Inr (CInt 7) \<and>
   length (decimal 482) \<le> 640 \<and>
   merge_env scenario_world (CDict conflicting_cfg) ''k'' ''1000'' (decimal 482) =
     Inr conflicting_merged_482 \<and>
   cfg_select scenario_world conflicting_merged_482 ''vectara'' ''corpus_id'' = Inr (CInt 482)"
proof -
  let ?vs = "[(''api_key'', CStr ''from-file''), (''customer_id'', CInt 5),
              (''corpus_id'', CStr ''99'')]"
  have f: "map_of conflicting_cfg ''vectara'' = Some (CDict ?vs)"
    by (simp add: conflicting_cfg_def)
  have m7: "merge_env scenario_world (CDict conflicting_cfg) ''k'' ''1000'' ''7'' =
      Inr conflicting_merged"
    by (simp add: merge_env_def cfg_assign_def cfg_validate_def conflicting_cfg_def
          conflicting_merged_def py_int_7)
  have m482: "merge_env scenario_world (CDict conflicting_cfg) ''k'' ''1000'' (decimal 482) =
      Inr conflicting_merged_482"
    using py_int_decimal [of 482 "int_max_str_digits scenario_world"]
    by (simp add: merge_env_def cfg_assign_def cfg_validate_def conflicting_cfg_def
          conflicting_merged_482_def
          decimal_482)
  have plain: "''k'' \<noteq> ''???''" "\<not> contains ''${'' ''k''"
      "''1000'' \<noteq> ''???''" "\<not> contains ''${'' ''1000''"
    by simp_all
  from merge_env_precedence [where kvs = conflicting_cfg and vs = ?vs and w = scenario_world
      and corp = "''7''" and n = 7 and key = "''k''" and cust = "''1000''" and m = 482]
    f m7 m482 plain
  show ?thesis
    by (simp add: py_int_7 decimal_482 cfg_value_def)
qed

text \<open>
  C5 as stated fails: with \<open>???\<close> as the API key in the environment, line 112 stores it,
  and the configuration's \<open>vectara.api_key\<close> cannot be read afterwards; line 121 raises
  and the run ends there.
\<close>

theorem marker_key_not_read_back:
  "merge_env marker_world (CDict scenario_cfg) ''???'' ''1000'' ''7'' = Inr marker_merged \<and>
   cfg_select marker_world marker_merged ''vectara'' ''api_key'' =
     Inl (MissingMandatoryValue ''vectara.api_key'') \<and>
   fst (run marker_world) = Inl (MissingMandatoryValue ''vectara.api_key'')"
  using marker_world_run
  by (simp add: merge_env_def cfg_assign_def cfg_validate_def cfg_select_def cfg_value_def
        scenario_cfg_def
        marker_merged_def py_int_7)

subsection \<open>C6: a class that is not a crawler is refused before it is constructed\<close>

text \<open>
  C6. When the module of the derived name exists and its attribute of the class name is
  a class that is not a subclass of the base class, \<open>instantiate_crawler\<close> raises
  \<open>TypeError\<close> with a message that names the class and the base class. Up to then it
  has prepended to the search path and imported the module; no constructor was called.
\<close>

theorem not_subclass_raises_before_construct:
  assumes "split class_name ''Crawler'' = p # ps"
    and "modules w (folder_name @ ''.'' @ lower p @ ''_crawler'') = Some m"
    and "m class_name = Some (ClassObj c)"
    and "base_class \<notin> set (cls_mro c)"
  shows "instantiate_crawler w base_class folder_name class_name args s =
     (Inl (TypeError (class_name @ '' is not a subclass of '' @ base_class)),
      s\<lparr>sys_path := abspath w folder_name # sys_path s,
        trace := trace s @ [ImportModule (folder_name @ ''.'' @ lower p @ ''_crawler'')]\<rparr>)"
  using assms
  by (simp add: instantiate_crawler_def import_module_def py_defs)

theorem not_subclass_witness:
  "instantiate_crawler stray_world ''Crawler'' ''crawlers'' ''WebsiteCrawler'' scenario_args
       (initial_state stray_world) =
     (Inl (TypeError ''WebsiteCrawler is not a subclass of Crawler''),
      \<lparr>sys_path = [''/app/crawlers'', ''/app''],
       trace = [ImportModule ''crawlers.website_crawler'']\<rparr>)"
  using not_subclass_raises_before_construct [where w = stray_world
      and class_name = "''WebsiteCrawler''" and p = "''Website''" and ps = "['''']"
      and folder_name = "''crawlers''" and base_class = "''Crawler''"
      and m = "[''WebsiteCrawler'' \<mapsto>
                 ClassObj (plain_class ''WebsiteCrawler'' [''WebsiteCrawler'', ''object''])]"
      and c = "plain_class ''WebsiteCrawler'' [''WebsiteCrawler'', ''object'']"
      and args = scenario_args and s = "initial_state stray_world"]
  by (simp add: stray_world_def scenario_world_def plain_class_def initial_state_def
        scenario_strings)

subsection \<open>C7: the reset switch\<close>

text \<open>
  C7. A run of \<open>main\<close>, where the switch is off, has no token fetch, no reset call and
  no wait in its trace. In a run with the switch on that reaches the crawl call, the
  events of the reset path and the crawl are, in this order and nothing else: one token
  fetch, one reset call, one wait of 5, the crawl.
\<close>

theorem reset_only_when_enabled:
  "filter reset_event (trace (snd (run w))) = [] \<and>
   (Crawl c \<in> set (trace (snd (run_with True w))) \<longrightarrow>
      (\<exists>tk url. filter reset_or_crawl (trace (snd (run_with True w))) =
         [TokenFetch tk, HttpPost url, Sleep 5, Crawl c]))"
  using run_disabled_no_reset run_enabled_reset_before_crawl by blast

theorem reset_only_when_enabled_witness:
  "Crawl ''WebsiteCrawler'' \<in> set (trace (snd (run_with True reset_world))) \<and>
   filter reset_or_crawl (trace (snd (run_with True reset_world))) =
     [TokenFetch [Fmt (CStr ''https://auth.example''), Lit ''/oauth2/token''],
      HttpPost [Lit ''https://'', Fmt (CStr ''api.vectara.io''), Lit ''/v1/reset-corpus''],
      Sleep 5, Crawl ''WebsiteCrawler'']"
proof -
  have h: "Crawl ''WebsiteCrawler'' \<in> set (trace (snd (run_with True reset_world)))"
    by (simp add: reset_world_run)
  from reset_only_when_enabled [of reset_world "''WebsiteCrawler''"] h
  obtain tk url where "filter reset_or_crawl (trace (snd (run_with True reset_world))) =
      [TokenFetch tk, HttpPost url, Sleep 5, Crawl ''WebsiteCrawler'']"
    by blast
  then show ?thesis
    using h by (simp add: reset_world_run)
qed

subsection \<open>C8: the reset call never raises on a status\<close>

text \<open>
  C8. When the token exchange yields a token and the POST returns a response,
  \<open>reset_corpus\<close> returns without an exception whatever the status: on 200 it logs the
  reset of the corpus at level INFO, on any other status it logs the status code and the
  response body at level ERROR.
\<close>

theorem reset_corpus_logs_and_returns:
  assumes "fetch_token w [Fmt auth_url, Lit ''/oauth2/token''] auth_id auth_secret = Inr token"
    and "map_of token ''access_token'' = Some t"
    and "http_post w [Lit ''https://'', Fmt endpoint, Lit ''/v1/reset-corpus'']
           [(''Content-Type'', [Lit ''application/json'']), (''Accept'', [Lit ''application/json'']),
            (''customer-id'', [Fmt customer_id]), (''Authorization'', [Lit ''Bearer '', Fmt t])]
           [(''customerId'', customer_id), (''corpusId'', corpus_id)] = Inr (status_code, body)"
  shows "reset_corpus w endpoint customer_id corpus_id auth_url auth_id auth_secret s =
     (Inr (),
      s\<lparr>trace := trace s @
         [TokenFetch [Fmt auth_url, Lit ''/oauth2/token''],
          HttpPost [Lit ''https://'', Fmt endpoint, Lit ''/v1/reset-corpus''],
          (if status_code = 200
           then Log INFO [Lit ''Reset corpus '', Fmt corpus_id]
           else Log ERROR [Lit ''Error resetting corpus: '', Fmt (CInt status_code), Lit '' '',
                           Fmt (CStr body)])]\<rparr>)"
  using assms
  by (simp add: reset_corpus_def get_jwt_token_def py_simps py_defs)

theorem reset_corpus_witness:
  "reset_corpus failing_reset_world (CStr ''api.vectara.io'') (CStr ''1000'') (CInt 7)
       (CStr ''https://auth.example'') (CStr ''id'') (CStr ''secret'')
       (initial_state failing_reset_world) =
     (Inr (),
      \<lparr>sys_path = [''/app''],
       trace = [TokenFetch [Fmt (CStr ''https://auth.example''), Lit ''/oauth2/token''],
                HttpPost [Lit ''https://'', Fmt (CStr ''api.vectara.io''), Lit ''/v1/reset-corpus''],
                Log ERROR [Lit ''Error resetting corpus: '', Fmt (CInt 500), Lit '' '',
                           Fmt (CStr ''Internal Server Error'')]]\<rparr>)"
  using reset_corpus_logs_and_returns [where w = failing_reset_world
      and token = "[(''access_token'', CStr ''t'')]" and t = "CStr ''t''"
      and status_code = 500 and body = "''Internal Server Error''"
      and auth_url = "CStr ''https://auth.example''" and auth_id = "CStr ''id''"
      and auth_secret = "CStr ''secret''" and endpoint = "CStr ''api.vectara.io''"
      and customer_id = "CStr ''1000''" and corpus_id = "CInt 7"
      and s = "initial_state failing_reset_world"]
  by (simp add: failing_reset_world_def scenario_world_def initial_state_def)

subsection \<open>C9: what the resolver changes\<close>

text \<open>
  C9, as the code has it. Every call of \<open>instantiate_crawler\<close>, whether it returns or
  raises, changes the state in two ways and no other: it puts the absolute search
  location at the front of the module search path, and it imports the derived module
  and then, if it gets that far, calls the constructor of the class on the arguments.
  The path is not left as one call leaves it: two calls put two copies at its front, and
  only the set of locations on the path is the same as after one call.
\<close>

theorem resolver_effects:
  "(\<exists>evs. snd (instantiate_crawler w b f c args s) =
       s\<lparr>sys_path := abspath w f # sys_path s, trace := trace s @ evs\<rparr> \<and>
     (evs = [ImportModule (f @ ''.'' @ lower (hd (split c ''Crawler'')) @ ''_crawler'')] \<or>
      (\<exists>n. evs = [ImportModule (f @ ''.'' @ lower (hd (split c ''Crawler'')) @ ''_crawler''),
                  Construct n args]))) \<and>
   sys_path (snd (instantiate_twice w b f c args s)) = abspath w f # abspath w f # sys_path s \<and>
   set (sys_path (snd (instantiate_twice w b f c args s))) =
     set (sys_path (snd (instantiate_crawler w b f c args s)))"
proof -
  obtain p ps where sp: "split c ''Crawler'' = p # ps"
    using split_nonempty [of c "''Crawler''"] by (cases "split c ''Crawler''") auto
  have "\<exists>evs. snd (instantiate_crawler w b f c args s) =
       s\<lparr>sys_path := abspath w f # sys_path s, trace := trace s @ evs\<rparr> \<and>
     (evs = [ImportModule (f @ ''.'' @ lower p @ ''_crawler'')] \<or>
      (\<exists>n. evs = [ImportModule (f @ ''.'' @ lower p @ ''_crawler''), Construct n args]))"
    unfolding instantiate_crawler_def import_module_def construct_def
    by (auto simp: sp py_simps py_defs split: option.splits pyobj.splits)
  then show ?thesis
    by (simp add: sp instantiate_twice_def instantiate_sys_path)
qed

text \<open>
  C9 as stated fails on both counts. In the scenario world one call leaves a state that
  is not the initial state with the search path extended: the module has been imported
  and the constructor called. And the search path after two calls is not the search
  path after one.
\<close>

theorem resolver_not_path_only_nor_idempotent:
  "snd (instantiate_crawler scenario_world ''Crawler'' ''crawlers'' ''WebsiteCrawler''
          scenario_args (initial_state scenario_world))
     \<noteq> (initial_state scenario_world)\<lparr>sys_path := [''/app/crawlers'', ''/app'']\<rparr> \<and>
   sys_path (snd (instantiate_twice scenario_world ''Crawler'' ''crawlers'' ''WebsiteCrawler''
                    scenario_args (initial_state scenario_world)))
     \<noteq> sys_path (snd (instantiate_crawler scenario_world ''Crawler'' ''crawlers'' ''WebsiteCrawler''
                    scenario_args (initial_state scenario_world)))"
proof -
  have "trace (snd (instantiate_crawler scenario_world ''Crawler'' ''crawlers'' ''WebsiteCrawler''
          scenario_args (initial_state scenario_world))) =
      [ImportModule ''crawlers.website_crawler'', Construct ''WebsiteCrawler'' scenario_args]"
    by (simp add: scenario_instantiate)
  moreover have "trace ((initial_state scenario_world)\<lparr>sys_path := [''/app/crawlers'', ''/app'']\<rparr>) = []"
    by (simp add: initial_state_def)
  ultimately have "snd (instantiate_crawler scenario_world ''Crawler'' ''crawlers'' ''WebsiteCrawler''
          scenario_args (initial_state scenario_world))
     \<noteq> (initial_state scenario_world)\<lparr>sys_path := [''/app/crawlers'', ''/app'']\<rparr>"
    by auto
  then show ?thesis
    by (simp add: instantiate_twice_def instantiate_sys_path)
qed

subsection \<open>C10: a corpus id that is not a number\<close>



end
